theory Spec2Isabelle
  imports Complex_Main "HOL-Library.Multiset"
begin

section \<open>JavaScript values\<close>

text \<open>
  The values that reach the handlers of \<^verbatim>\<open>src/index.js\<close>: what \<^verbatim>\<open>express.json()\<close>,
  \<^verbatim>\<open>express.urlencoded({ extended: true })\<close> and the query parser put into
  \<^verbatim>\<open>req.body\<close> and \<^verbatim>\<open>req.query\<close>, and \<^verbatim>\<open>undefined\<close> for a property that is not there.
  A number is a finite double, kept as the rational it denotes.
\<close>

datatype jsval =
    JUndefined
  | JNull
  | JBool bool
  | JNum rat
  | JStr string
  | JArr "jsval list"
  | JObj "(string \<times> jsval) list"

text \<open>JavaScript's ToBoolean: \<^verbatim>\<open>!v\<close> is \<open>\<not> truthy v\<close>.\<close>

fun truthy :: "jsval \<Rightarrow> bool" where
  "truthy JUndefined = False"
| "truthy JNull = False"
| "truthy (JBool b) = b"
| "truthy (JNum n) = (n \<noteq> 0)"
| "truthy (JStr s) = (s \<noteq> [])"
| "truthy (JArr xs) = True"
| "truthy (JObj kvs) = True"

text \<open>\<^verbatim>\<open>a || b\<close>: the left operand when it is truthy, the right one otherwise.\<close>

definition js_or :: "jsval \<Rightarrow> jsval \<Rightarrow> jsval" where
  "js_or a b = (if truthy a then a else b)"

text \<open>
  \<^verbatim>\<open>a === b\<close>. Primitives are compared by type and value. Arrays and objects are compared
  by reference; the program only compares a value parsed from the request with a
  configuration constant, which are never the same reference.
\<close>

definition strict_eq :: "jsval \<Rightarrow> jsval \<Rightarrow> bool" where
  "strict_eq a b = (case a of JArr xs \<Rightarrow> False | JObj kvs \<Rightarrow> False | _ \<Rightarrow> a = b)"

text \<open>\<^verbatim>\<open>o[k]\<close> on a parsed object: \<^verbatim>\<open>undefined\<close> when the key is not there.\<close>

definition lookup :: "(string \<times> jsval) list \<Rightarrow> string \<Rightarrow> jsval" where
  "lookup obj k = (case map_of obj k of None \<Rightarrow> JUndefined | Some v \<Rightarrow> v)"

section \<open>Configuration\<close>

text \<open>
  \<^verbatim>\<open>process.env\<close>, for the two values the handlers use (lines 21 and 22). A variable of
  the environment is a string or is not set.
\<close>

record process_env =
  env_ADMIN_PASSWORD :: "string option"
  env_ADMIN_TOKEN :: "string option"

definition env_val :: "string option \<Rightarrow> jsval" where
  "env_val v = (case v of None \<Rightarrow> JUndefined | Some s \<Rightarrow> JStr s)"

definition ADMIN_PASSWORD :: "process_env \<Rightarrow> jsval" where
  "ADMIN_PASSWORD e = env_val (env_ADMIN_PASSWORD e)"

definition ADMIN_TOKEN :: "process_env \<Rightarrow> jsval" where
  "ADMIN_TOKEN e = js_or (env_val (env_ADMIN_TOKEN e)) (JStr ''changeme'')"

section \<open>The product schema and the documents\<close>

text \<open>
  \<^verbatim>\<open>productSchema\<close> (lines 40 to 48): six paths that a request can set, of type String or
  Number, and \<^verbatim>\<open>createdAt\<close>. A document holds, for each of the six, the value the store
  keeps (\<^verbatim>\<open>undefined\<close> when the path is not set), its \<^verbatim>\<open>_id\<close> and its creation date in
  milliseconds.
\<close>

datatype path = Name | Brand | Size | Description | Price | ImageUrl

datatype schematype = SchemaString | SchemaNumber

fun key :: "path \<Rightarrow> string" where
  "key Name = ''name''"
| "key Brand = ''brand''"
| "key Size = ''size''"
| "key Description = ''description''"
| "key Price = ''price''"
| "key ImageUrl = ''imageUrl''"

fun productSchema :: "path \<Rightarrow> schematype" where
  "productSchema Name = SchemaString"
| "productSchema Brand = SchemaString"
| "productSchema Size = SchemaString"
| "productSchema Description = SchemaString"
| "productSchema Price = SchemaNumber"
| "productSchema ImageUrl = SchemaString"

definition paths :: "path list" where
  "paths = [Name, Brand, Size, Description, Price, ImageUrl]"

record product =
  id' :: string
  name :: jsval
  brand :: jsval
  size' :: jsval
  description :: jsval
  price :: jsval
  imageUrl :: jsval
  createdAt :: int

fun get_path :: "path \<Rightarrow> product \<Rightarrow> jsval" where
  "get_path Name d = name d"
| "get_path Brand d = brand d"
| "get_path Size d = size' d"
| "get_path Description d = description d"
| "get_path Price d = price d"
| "get_path ImageUrl d = imageUrl d"

fun set_path :: "path \<Rightarrow> jsval \<Rightarrow> product \<Rightarrow> product" where
  "set_path Name v d = d\<lparr>name := v\<rparr>"
| "set_path Brand v d = d\<lparr>brand := v\<rparr>"
| "set_path Size v d = d\<lparr>size' := v\<rparr>"
| "set_path Description v d = d\<lparr>description := v\<rparr>"
| "set_path Price v d = d\<lparr>price := v\<rparr>"
| "set_path ImageUrl v d = d\<lparr>imageUrl := v\<rparr>"

section \<open>Requests, responses and the state\<close>

text \<open>
  A request as the handlers see it: the headers as Node gives them (names in lower case),
  the parsed query and body (the empty object when the request has none), the \<^verbatim>\<open>:id\<close> of
  the path, the file part sent under the form field \<^verbatim>\<open>image\<close> (if any), and
  \<^verbatim>\<open>req.file.path\<close>, which only multer sets.
\<close>

record request =
  headers :: "(string \<times> string) list"
  query :: "(string \<times> jsval) list"
  params_id :: string
  body :: "(string \<times> jsval) list"
  image :: "string option"
  file_path :: "string option"

definition header :: "request \<Rightarrow> string \<Rightarrow> jsval" where
  "header req k = (case map_of (headers req) k of None \<Rightarrow> JUndefined | Some s \<Rightarrow> JStr s)"

text \<open>What \<^verbatim>\<open>res.json\<close> is given: a literal object, a document or the list of documents.\<close>

datatype payload = Json jsval | Doc product | Docs "product list"

record response =
  status :: nat
  payload :: payload

text \<open>
  The state a handler can change: the documents of the collection, in the order of their
  insertion, and the files under \<^verbatim>\<open>tmp/\<close>.
\<close>

record state =
  docs :: "product list"
  tmp :: "string set"

text \<open>
  What a request meets outside the program. The store client and the media client are
  libraries, not code of the repository, and so are the clock and the generator of file
  names. Of the store client the model fixes what the schema of the source decides; what
  the library decides by itself is a field here: which strings it accepts as an
  identifier (\<open>castObjectId\<close>, giving the identifier in the form the documents keep it),
  what it makes of a value that is neither of the path's type, nor \<^verbatim>\<open>null\<close>, nor an array
  (\<open>coerceString\<close>, \<open>coerceNumber\<close>), whether the database answers (\<open>connected\<close>), and the
  identifier of a new document. \<open>cloudinary_upload\<close> is the outcome of the upload of a
  path into a folder: an error, or the hosted URL and identifier.
\<close>

record world =
  castObjectId :: "string \<Rightarrow> string option"
  coerceString :: "jsval \<Rightarrow> jsval option"
  coerceNumber :: "jsval \<Rightarrow> jsval option"
  connected :: bool
  newObjectId :: string
  now :: int
  tmpName :: string
  cloudinary_upload :: "string \<Rightarrow> string \<Rightarrow> string + (string \<times> string)"

type_synonym handler = "request \<Rightarrow> state \<Rightarrow> response \<times> state"

definition json_status :: "nat \<Rightarrow> (string \<times> jsval) list \<Rightarrow> response" where
  "json_status c obj = \<lparr>status = c, payload = Json (JObj obj)\<rparr>"

section \<open>The admin check and the login\<close>

text \<open>\<^verbatim>\<open>checkAdmin(req, res, next)\<close>, lines 62 to 68.\<close>

definition checkAdmin :: "process_env \<Rightarrow> handler \<Rightarrow> handler" where
  "checkAdmin e next req s =
     (let token = js_or (header req ''x-admin-token'') (lookup (query req) ''token'') in
      if \<not> truthy token \<or> \<not> strict_eq token (ADMIN_TOKEN e)
      then (json_status 401 [(''ok'', JBool False), (''error'', JStr ''Unauthorized'')], s)
      else next req s)"

text \<open>\<^verbatim>\<open>POST /api/login\<close>, lines 72 to 79.\<close>

definition post_api_login :: "process_env \<Rightarrow> handler" where
  "post_api_login e req s =
     (let password = lookup (body req) ''password'' in
      if \<not> truthy password
      then (json_status 400 [(''ok'', JBool False), (''error'', JStr ''Missing password'')], s)
      else if \<not> strict_eq password (ADMIN_PASSWORD e)
      then (json_status 401 [(''ok'', JBool False), (''error'', JStr ''Wrong password'')], s)
      else (json_status 200 [(''ok'', JBool True), (''token'', ADMIN_TOKEN e)], s))"

section \<open>The store client\<close>

text \<open>
  The casts of the schema types. A value of the path's own type, \<^verbatim>\<open>null\<close> and
  \<^verbatim>\<open>undefined\<close> are kept as they are; an array is refused by both casts; every other
  value is left to the library.
\<close>

datatype store_error = CastError | ValidationError | DuplicateKey | Unreachable

definition castString :: "world \<Rightarrow> jsval \<Rightarrow> jsval option" where
  "castString w v =
     (case v of
        JUndefined \<Rightarrow> Some v
      | JNull \<Rightarrow> Some v
      | JStr s \<Rightarrow> Some v
      | JArr xs \<Rightarrow> None
      | _ \<Rightarrow> coerceString w v)"

definition castNumber :: "world \<Rightarrow> jsval \<Rightarrow> jsval option" where
  "castNumber w v =
     (case v of
        JUndefined \<Rightarrow> Some v
      | JNull \<Rightarrow> Some v
      | JNum n \<Rightarrow> Some v
      | JArr xs \<Rightarrow> None
      | _ \<Rightarrow> coerceNumber w v)"

definition cast :: "world \<Rightarrow> path \<Rightarrow> jsval \<Rightarrow> jsval option" where
  "cast w p v =
     (case productSchema p of
        SchemaString \<Rightarrow> castString w v
      | SchemaNumber \<Rightarrow> castNumber w v)"

text \<open>
  The paths of the schema that an object supplies, each with its value after the cast;
  \<open>None\<close> when a cast fails. A key that is not a path of the schema is dropped.
\<close>

fun cast_fields :: "world \<Rightarrow> (string \<times> jsval) list \<Rightarrow> path list \<Rightarrow> (path \<times> jsval) list option" where
  "cast_fields w obj [] = Some []"
| "cast_fields w obj (p # ps) =
     (if lookup obj (key p) = JUndefined then cast_fields w obj ps
      else (case cast w p (lookup obj (key p)) of
              None \<Rightarrow> None
            | Some v \<Rightarrow> map_option ((#) (p, v)) (cast_fields w obj ps)))"

fun assign :: "(path \<times> jsval) list \<Rightarrow> product \<Rightarrow> product" where
  "assign [] d = d"
| "assign ((p, v) # vs) d = assign vs (set_path p v d)"

text \<open>
  \<^verbatim>\<open>new Product(obj)\<close>: the supplied paths after their casts, the default of \<^verbatim>\<open>price\<close>
  (used when the path is \<^verbatim>\<open>undefined\<close>), the default of \<^verbatim>\<open>createdAt\<close> and a new
  identifier. A failed cast is kept with the document and makes \<^verbatim>\<open>save\<close> reject.
\<close>

definition blank :: "world \<Rightarrow> product" where
  "blank w = \<lparr>id' = newObjectId w, name = JUndefined, brand = JUndefined, size' = JUndefined,
     description = JUndefined, price = JUndefined, imageUrl = JUndefined, createdAt = now w\<rparr>"

definition defaults :: "product \<Rightarrow> product" where
  "defaults d = (if price d = JUndefined then d\<lparr>price := JNum 0\<rparr> else d)"

definition new_Product :: "world \<Rightarrow> (string \<times> jsval) list \<Rightarrow> store_error + product" where
  "new_Product w obj =
     (case cast_fields w obj paths of
        None \<Rightarrow> Inl CastError
      | Some vs \<Rightarrow> Inr (defaults (assign vs (blank w))))"

text \<open>\<^verbatim>\<open>required: true\<close> on a String path: a string that is not empty.\<close>

definition required_ok :: "jsval \<Rightarrow> bool" where
  "required_ok v = (case v of JStr s \<Rightarrow> s \<noteq> [] | _ \<Rightarrow> False)"

text \<open>\<^verbatim>\<open>prod.save()\<close>: validation, then the insertion; \<^verbatim>\<open>_id\<close> is unique in a collection.\<close>

definition save :: "world \<Rightarrow> store_error + product \<Rightarrow> state \<Rightarrow> store_error + product \<times> state" where
  "save w prd s =
     (case prd of
        Inl err \<Rightarrow> Inl ValidationError
      | Inr d \<Rightarrow>
          if \<not> required_ok (name d) then Inl ValidationError
          else if \<not> connected w then Inl Unreachable
          else if id' d \<in> set (map id' (docs s)) then Inl DuplicateKey
          else Inr (d, s\<lparr>docs := docs s @ [d]\<rparr>))"

text \<open>
  \<^verbatim>\<open>Product.find().sort({ createdAt: -1 })\<close>: all the documents, by descending date (the
  documents of one date in the order of their insertion).
\<close>

definition find_sort_createdAt_desc :: "world \<Rightarrow> state \<Rightarrow> store_error + product list" where
  "find_sort_createdAt_desc w s =
     (if connected w then Inr (sort_key (\<lambda>d. - createdAt d) (docs s)) else Inl Unreachable)"

text \<open>\<^verbatim>\<open>Product.findById(id)\<close>: the identifier is cast before the query is sent.\<close>

definition findById :: "world \<Rightarrow> string \<Rightarrow> state \<Rightarrow> store_error + product option" where
  "findById w i s =
     (case castObjectId w i of
        None \<Rightarrow> Inl CastError
      | Some oid \<Rightarrow>
          if \<not> connected w then Inl Unreachable
          else Inr (find (\<lambda>d. id' d = oid) (docs s)))"

fun update_first :: "('a \<Rightarrow> bool) \<Rightarrow> ('a \<Rightarrow> 'a) \<Rightarrow> 'a list \<Rightarrow> 'a list" where
  "update_first P f [] = []"
| "update_first P f (x # xs) = (if P x then f x # xs else x # update_first P f xs)"

fun remove_first :: "('a \<Rightarrow> bool) \<Rightarrow> 'a list \<Rightarrow> 'a list" where
  "remove_first P [] = []"
| "remove_first P (x # xs) = (if P x then xs else x # remove_first P xs)"

text \<open>
  \<^verbatim>\<open>Product.findByIdAndUpdate(id, update, { new: true })\<close>: the identifier and the update
  are cast before the query is sent; the paths of the update are set on the document
  found, without validation; the answer is the document after the update, or \<^verbatim>\<open>null\<close>.
  Of the update the model reads the six paths above. An update that names \<^verbatim>\<open>_id\<close>,
  \<^verbatim>\<open>createdAt\<close>, a dotted path or an update operator is outside the model; every
  theorem on the answer to an update takes a body of these six product fields.
\<close>

definition findByIdAndUpdate ::
    "world \<Rightarrow> string \<Rightarrow> (string \<times> jsval) list \<Rightarrow> state \<Rightarrow> store_error + product option \<times> state" where
  "findByIdAndUpdate w i upd s =
     (case castObjectId w i of
        None \<Rightarrow> Inl CastError
      | Some oid \<Rightarrow>
          (case cast_fields w upd paths of
             None \<Rightarrow> Inl CastError
           | Some vs \<Rightarrow>
               if \<not> connected w then Inl Unreachable
               else (case find (\<lambda>d. id' d = oid) (docs s) of
                       None \<Rightarrow> Inr (None, s)
                     | Some d \<Rightarrow>
                         Inr (Some (assign vs d),
                              s\<lparr>docs := update_first (\<lambda>d. id' d = oid) (assign vs) (docs s)\<rparr>))))"

text \<open>\<^verbatim>\<open>Product.findByIdAndDelete(id)\<close>\<close>

definition findByIdAndDelete :: "world \<Rightarrow> string \<Rightarrow> state \<Rightarrow> store_error + product option \<times> state" where
  "findByIdAndDelete w i s =
     (case castObjectId w i of
        None \<Rightarrow> Inl CastError
      | Some oid \<Rightarrow>
          if \<not> connected w then Inl Unreachable
          else (case find (\<lambda>d. id' d = oid) (docs s) of
                  None \<Rightarrow> Inr (None, s)
                | Some d \<Rightarrow> Inr (Some d, s\<lparr>docs := remove_first (\<lambda>d. id' d = oid) (docs s)\<rparr>)))"

section \<open>The product handlers\<close>

text \<open>\<^verbatim>\<open>GET /api/products\<close>, lines 82 to 90.\<close>

definition get_api_products :: "world \<Rightarrow> handler" where
  "get_api_products w req s =
     (case find_sort_createdAt_desc w s of
        Inl err \<Rightarrow> (json_status 500 [(''error'', JStr ''Server error'')], s)
      | Inr products \<Rightarrow> (\<lparr>status = 200, payload = Docs products\<rparr>, s))"

text \<open>\<^verbatim>\<open>GET /api/products/:id\<close>, lines 93 to 102.\<close>

definition get_api_products_id :: "world \<Rightarrow> handler" where
  "get_api_products_id w req s =
     (case findById w (params_id req) s of
        Inl err \<Rightarrow> (json_status 500 [(''error'', JStr ''Server error'')], s)
      | Inr None \<Rightarrow> (json_status 404 [(''error'', JStr ''Not found'')], s)
      | Inr (Some p) \<Rightarrow> (\<lparr>status = 200, payload = Doc p\<rparr>, s))"

text \<open>\<^verbatim>\<open>POST /api/products\<close>, lines 106 to 117, after the admin check.\<close>

definition post_api_products_handler :: "world \<Rightarrow> handler" where
  "post_api_products_handler w req s =
     (let name = lookup (body req) ''name'';
          brand = lookup (body req) ''brand'';
          size = lookup (body req) ''size'';
          description = lookup (body req) ''description'';
          price = lookup (body req) ''price'';
          imageUrl = lookup (body req) ''imageUrl''
      in if \<not> truthy name then (json_status 400 [(''error'', JStr ''Name is required'')], s)
         else (case save w (new_Product w
                 [(''name'', name), (''brand'', brand), (''size'', size),
                  (''description'', description), (''price'', price), (''imageUrl'', imageUrl)]) s of
                 Inl err \<Rightarrow> (json_status 500 [(''error'', JStr ''Server error'')], s)
               | Inr (prd, s') \<Rightarrow> (\<lparr>status = 200, payload = Doc prd\<rparr>, s')))"

text \<open>\<^verbatim>\<open>PUT /api/products/:id\<close>, lines 120 to 129, after the admin check.\<close>

definition put_api_products_id_handler :: "world \<Rightarrow> handler" where
  "put_api_products_id_handler w req s =
     (case findByIdAndUpdate w (params_id req) (body req) s of
        Inl err \<Rightarrow> (json_status 500 [(''error'', JStr ''Server error'')], s)
      | Inr (None, s') \<Rightarrow> (json_status 404 [(''error'', JStr ''Not found'')], s')
      | Inr (Some updated, s') \<Rightarrow> (\<lparr>status = 200, payload = Doc updated\<rparr>, s'))"

text \<open>\<^verbatim>\<open>DELETE /api/products/:id\<close>, lines 132 to 141, after the admin check.\<close>

definition delete_api_products_id_handler :: "world \<Rightarrow> handler" where
  "delete_api_products_id_handler w req s =
     (case findByIdAndDelete w (params_id req) s of
        Inl err \<Rightarrow> (json_status 500 [(''error'', JStr ''Server error'')], s)
      | Inr (None, s') \<Rightarrow> (json_status 404 [(''error'', JStr ''Not found'')], s')
      | Inr (Some removed, s') \<Rightarrow> (json_status 200 [(''ok'', JBool True)], s'))"

section \<open>The upload\<close>

text \<open>
  \<^verbatim>\<open>upload.single('image')\<close> with \<^verbatim>\<open>multer({ dest: 'tmp/' })\<close>: a file part under the field
  is written under \<^verbatim>\<open>tmp/\<close> with a generated name, and \<^verbatim>\<open>req.file\<close> is set.
\<close>

definition upload_single :: "world \<Rightarrow> handler \<Rightarrow> handler" where
  "upload_single w next req s =
     (case image req of
        None \<Rightarrow> next (req\<lparr>file_path := None\<rparr>) s
      | Some bytes \<Rightarrow>
          next (req\<lparr>file_path := Some (''tmp/'' @ tmpName w)\<rparr>)
               (s\<lparr>tmp := insert (''tmp/'' @ tmpName w) (tmp s)\<rparr>))"

text \<open>
  \<^verbatim>\<open>POST /api/upload\<close>, lines 147 to 165, after the admin check and multer.
  \<^verbatim>\<open>fs.unlinkSync\<close> throws when the file is not there, inside the \<^verbatim>\<open>try\<close>.
\<close>

definition post_api_upload_handler :: "world \<Rightarrow> handler" where
  "post_api_upload_handler w req s =
     (case file_path req of
        None \<Rightarrow> (json_status 400 [(''error'', JStr ''No file uploaded'')], s)
      | Some p \<Rightarrow>
          (case cloudinary_upload w p ''jubilate_products'' of
             Inl err \<Rightarrow> (json_status 500 [(''error'', JStr ''Upload failed'')], s)
           | Inr (secure_url, public_id) \<Rightarrow>
               if p \<in> tmp s
               then (json_status 200 [(''ok'', JBool True), (''url'', JStr secure_url),
                                      (''public_id'', JStr public_id)],
                     s\<lparr>tmp := tmp s - {p}\<rparr>)
               else (json_status 500 [(''error'', JStr ''Upload failed'')], s)))"

section \<open>The routes\<close>

definition post_api_products :: "process_env \<Rightarrow> world \<Rightarrow> handler" where
  "post_api_products e w = checkAdmin e (post_api_products_handler w)"

definition put_api_products_id :: "process_env \<Rightarrow> world \<Rightarrow> handler" where
  "put_api_products_id e w = checkAdmin e (put_api_products_id_handler w)"

definition delete_api_products_id :: "process_env \<Rightarrow> world \<Rightarrow> handler" where
  "delete_api_products_id e w = checkAdmin e (delete_api_products_id_handler w)"

definition post_api_upload :: "process_env \<Rightarrow> world \<Rightarrow> handler" where
  "post_api_upload e w = checkAdmin e (upload_single w (post_api_upload_handler w))"

section \<open>The words of the specification\<close>

text \<open>
  The candidate token as the specification words it: the header when the request has
  one, the query parameter otherwise.
\<close>

definition candidate_by_presence :: "request \<Rightarrow> jsval" where
  "candidate_by_presence req =
     (case map_of (headers req) ''x-admin-token'' of
        Some h \<Rightarrow> JStr h
      | None \<Rightarrow> lookup (query req) ''token'')"

text \<open>The candidate token: the header when the request has one that is not empty.\<close>

definition candidate :: "request \<Rightarrow> jsval" where
  "candidate req =
     (case map_of (headers req) ''x-admin-token'' of
        Some h \<Rightarrow> if h = [] then lookup (query req) ''token'' else JStr h
      | None \<Rightarrow> lookup (query req) ''token'')"

definition unauthorized :: response where
  "unauthorized = json_status 401 [(''ok'', JBool False), (''error'', JStr ''Unauthorized'')]"

definition not_found :: response where
  "not_found = json_status 404 [(''error'', JStr ''Not found'')]"

definition server_error :: response where
  "server_error = json_status 500 [(''error'', JStr ''Server error'')]"

text \<open>
  A body of product fields of the types of the schema: every key is a path of the
  schema, with a string on a String path and a number on a Number path.
\<close>

fun has_type :: "schematype \<Rightarrow> jsval \<Rightarrow> bool" where
  "has_type SchemaString (JStr s) = True"
| "has_type SchemaNumber (JNum n) = True"
| "has_type t v = False"

definition typed_fields :: "(string \<times> jsval) list \<Rightarrow> bool" where
  "typed_fields obj =
     list_all (\<lambda>(k, v). list_ex (\<lambda>p. k = key p \<and> has_type (productSchema p) v) paths) obj"

text \<open>The documents of a list, newest first.\<close>

definition newest_first :: "product list \<Rightarrow> bool" where
  "newest_first xs = sorted_wrt (\<lambda>a b. createdAt b \<le> createdAt a) xs"

section \<open>Example data\<close>

definition hexdigit :: "char \<Rightarrow> bool" where
  "hexdigit c = (c \<in> set ''0123456789abcdef'')"

text \<open>A store client that takes 24 hexadecimal digits as an identifier and coerces nothing.\<close>

definition w0 :: world where
  "w0 = \<lparr>castObjectId = (\<lambda>i. if length i = 24 \<and> list_all hexdigit i then Some i else None),
          coerceString = (\<lambda>v. None),
          coerceNumber = (\<lambda>v. None),
          connected = True,
          newObjectId = ''65a1b2c3d4e5f60718293a4d'',
          now = 1700000300000,
          tmpName = ''3f2a9c'',
          cloudinary_upload = (\<lambda>p folder.
             Inr (''https://res.cloudinary.com/demo/'' @ folder @ ''/a.png'', folder @ ''/a''))\<rparr>"

definition e0 :: process_env where
  "e0 = \<lparr>env_ADMIN_PASSWORD = Some ''secret'', env_ADMIN_TOKEN = Some ''tok''\<rparr>"

definition p1 :: product where
  "p1 = \<lparr>id' = ''65a1b2c3d4e5f60718293a4a'', name = JStr ''Lipstick'', brand = JStr ''Glam'',
          size' = JUndefined, description = JUndefined, price = JNum 12, imageUrl = JUndefined,
          createdAt = 1700000000000\<rparr>"

definition p2 :: product where
  "p2 = \<lparr>id' = ''65a1b2c3d4e5f60718293a4b'', name = JStr ''Mascara'', brand = JUndefined,
          size' = JStr ''10ml'', description = JUndefined, price = JNum 0, imageUrl = JUndefined,
          createdAt = 1700000200000\<rparr>"

definition p3 :: product where
  "p3 = \<lparr>id' = ''65a1b2c3d4e5f60718293a4c'', name = JStr ''Blush'', brand = JUndefined,
          size' = JUndefined, description = JUndefined, price = JNum 7, imageUrl = JUndefined,
          createdAt = 1700000100000\<rparr>"

definition p4 :: product where
  "p4 = \<lparr>id' = ''65a1b2c3d4e5f60718293a4d'', name = JStr ''Gloss'', brand = JUndefined,
          size' = JStr ''5ml'', description = JUndefined, price = JNum 0, imageUrl = JUndefined,
          createdAt = 1700000300000\<rparr>"

definition s0 :: state where
  "s0 = \<lparr>docs = [p1, p2, p3], tmp = {}\<rparr>"

definition request0 :: request where
  "request0 = \<lparr>headers = [], query = [], params_id = [], body = [], image = None,
                file_path = None\<rparr>"

section \<open>The admin check\<close>

lemma ADMIN_TOKEN_string: "\<exists>t. ADMIN_TOKEN e = JStr t \<and> t \<noteq> []"
  by (cases "env_ADMIN_TOKEN e") (auto simp: ADMIN_TOKEN_def env_val_def js_or_def)

lemma js_or_candidate:
  "js_or (header req ''x-admin-token'') (lookup (query req) ''token'') = candidate req"
  by (auto simp: js_or_def header_def candidate_def split: option.splits)

lemma authorized_iff: "(truthy v \<and> strict_eq v (ADMIN_TOKEN e)) = (v = ADMIN_TOKEN e)"
  using ADMIN_TOKEN_string [of e] by (cases v) (auto simp: strict_eq_def)

lemma checkAdmin_candidate:
  "checkAdmin e next req s =
     (if candidate req = ADMIN_TOKEN e then next req s else (unauthorized, s))"
  using authorized_iff [of "candidate req" e]
  by (auto simp: checkAdmin_def js_or_candidate unauthorized_def Let_def)

text \<open>
  C1, as the code has it. The candidate token is the header \<^verbatim>\<open>x-admin-token\<close> when the
  request has one that is not empty, and the query parameter \<^verbatim>\<open>token\<close> otherwise. When
  the candidate equals the configured admin token the wrapped handler runs on the same
  request and state; otherwise the answer is 401 with the body
  \<^verbatim>\<open>{ ok: false, error: 'Unauthorized' }\<close> and the state is the one before. The routes
  that create, update and delete a product and the upload route are the admin check
  around their handlers (the upload's, around multer and its handler).
\<close>

theorem checkAdmin_gate:
  "checkAdmin e next req s =
     (if candidate req = ADMIN_TOKEN e then next req s else (unauthorized, s))
   \<and> post_api_products e w req s =
     (if candidate req = ADMIN_TOKEN e then post_api_products_handler w req s
      else (unauthorized, s))
   \<and> put_api_products_id e w req s =
     (if candidate req = ADMIN_TOKEN e then put_api_products_id_handler w req s
      else (unauthorized, s))
   \<and> delete_api_products_id e w req s =
     (if candidate req = ADMIN_TOKEN e then delete_api_products_id_handler w req s
      else (unauthorized, s))
   \<and> post_api_upload e w req s =
     (if candidate req = ADMIN_TOKEN e then upload_single w (post_api_upload_handler w) req s
      else (unauthorized, s))"
  by (simp add: checkAdmin_candidate post_api_products_def put_api_products_id_def
        delete_api_products_id_def post_api_upload_def)

theorem checkAdmin_gate_witness:
  "delete_api_products_id e0 w0
     (request0\<lparr>headers := [(''x-admin-token'', ''tok'')],
                params_id := ''65a1b2c3d4e5f60718293a4b''\<rparr>) s0
     = (json_status 200 [(''ok'', JBool True)], \<lparr>docs = [p1, p3], tmp = {}\<rparr>)
   \<and> delete_api_products_id e0 w0
     (request0\<lparr>headers := [(''x-admin-token'', ''bad'')], query := [(''token'', JStr ''tok'')],
                params_id := ''65a1b2c3d4e5f60718293a4b''\<rparr>) s0
     = (unauthorized, s0)"
  using checkAdmin_gate
    [of e0 "delete_api_products_id_handler w0"
        "request0\<lparr>headers := [(''x-admin-token'', ''tok'')],
                   params_id := ''65a1b2c3d4e5f60718293a4b''\<rparr>" s0 w0]
    checkAdmin_gate
    [of e0 "delete_api_products_id_handler w0"
        "request0\<lparr>headers := [(''x-admin-token'', ''bad'')], query := [(''token'', JStr ''tok'')],
                   params_id := ''65a1b2c3d4e5f60718293a4b''\<rparr>" s0 w0]
  by (simp add: request0_def candidate_def ADMIN_TOKEN_def e0_def env_val_def js_or_def
       delete_api_products_id_handler_def findByIdAndDelete_def w0_def hexdigit_def s0_def
       p1_def p2_def p3_def)

text \<open>
  C1 as it is worded fails: a \<^verbatim>\<open>DELETE\<close> whose header is there and empty, with the admin
  token in the query. The header is present and differs from the admin token, yet the
  answer is 200 and the document is gone.
\<close>

theorem checkAdmin_empty_header_counterexample:
  "candidate_by_presence
     (request0\<lparr>headers := [(''x-admin-token'', '''')], query := [(''token'', JStr ''tok'')],
                params_id := ''65a1b2c3d4e5f60718293a4b''\<rparr>) = JStr ''''
   \<and> JStr '''' \<noteq> ADMIN_TOKEN e0
   \<and> delete_api_products_id e0 w0
       (request0\<lparr>headers := [(''x-admin-token'', '''')], query := [(''token'', JStr ''tok'')],
                  params_id := ''65a1b2c3d4e5f60718293a4b''\<rparr>) s0
     = (json_status 200 [(''ok'', JBool True)], \<lparr>docs = [p1, p3], tmp = {}\<rparr>)"
  by (simp add: candidate_by_presence_def request0_def ADMIN_TOKEN_def e0_def env_val_def js_or_def
       delete_api_products_id_def checkAdmin_def header_def lookup_def strict_eq_def
       delete_api_products_id_handler_def findByIdAndDelete_def w0_def hexdigit_def s0_def
       p1_def p2_def p3_def)

text \<open>
  C8. When the header \<^verbatim>\<open>x-admin-token\<close> is there and is the empty string, the header is
  the candidate by presence, but the check decides on the query parameter \<^verbatim>\<open>token\<close>.
\<close>

theorem empty_header_defers_to_query:
  assumes "map_of (headers req) ''x-admin-token'' = Some []"
  shows "candidate_by_presence req = JStr []
    \<and> checkAdmin e next req s =
       (if lookup (query req) ''token'' = ADMIN_TOKEN e then next req s else (unauthorized, s))"
  using assms by (simp add: checkAdmin_candidate candidate_def candidate_by_presence_def)

theorem empty_header_defers_to_query_witness:
  "map_of (headers (request0\<lparr>headers := [(''x-admin-token'', '''')],
                              query := [(''token'', JStr ''tok'')]\<rparr>)) ''x-admin-token'' = Some []
   \<and> checkAdmin e0 (get_api_products w0)
        (request0\<lparr>headers := [(''x-admin-token'', '''')], query := [(''token'', JStr ''tok'')]\<rparr>) s0
     = get_api_products w0
        (request0\<lparr>headers := [(''x-admin-token'', '''')], query := [(''token'', JStr ''tok'')]\<rparr>) s0"
  using empty_header_defers_to_query
    [of "request0\<lparr>headers := [(''x-admin-token'', '''')], query := [(''token'', JStr ''tok'')]\<rparr>"
        e0 "get_api_products w0" s0]
  by (simp add: request0_def lookup_def ADMIN_TOKEN_def e0_def env_val_def js_or_def)

text \<open>
  C10. When \<^verbatim>\<open>ADMIN_TOKEN\<close> is not set in the environment, the admin token is the string
  \<^verbatim>\<open>changeme\<close>, and the check lets a request through exactly when its candidate token is
  that string: not every request is refused, and an empty token is.
\<close>

theorem default_admin_token:
  assumes "env_ADMIN_TOKEN e = None"
  shows "ADMIN_TOKEN e = JStr ''changeme''
    \<and> checkAdmin e next req s =
       (if candidate req = JStr ''changeme'' then next req s else (unauthorized, s))"
  using assms by (simp add: checkAdmin_candidate ADMIN_TOKEN_def env_val_def js_or_def)

theorem default_admin_token_witness:
  "env_ADMIN_TOKEN (e0\<lparr>env_ADMIN_TOKEN := None\<rparr>) = None
   \<and> ADMIN_TOKEN (e0\<lparr>env_ADMIN_TOKEN := None\<rparr>) = JStr ''changeme''
   \<and> checkAdmin (e0\<lparr>env_ADMIN_TOKEN := None\<rparr>) (get_api_products w0)
        (request0\<lparr>headers := [(''x-admin-token'', ''changeme'')]\<rparr>) s0
     = get_api_products w0 (request0\<lparr>headers := [(''x-admin-token'', ''changeme'')]\<rparr>) s0
   \<and> checkAdmin (e0\<lparr>env_ADMIN_TOKEN := None\<rparr>) (get_api_products w0)
        (request0\<lparr>query := [(''token'', JStr '''')]\<rparr>) s0
     = (unauthorized, s0)"
  using default_admin_token
    [of "e0\<lparr>env_ADMIN_TOKEN := None\<rparr>" "get_api_products w0"
        "request0\<lparr>headers := [(''x-admin-token'', ''changeme'')]\<rparr>" s0]
    default_admin_token
    [of "e0\<lparr>env_ADMIN_TOKEN := None\<rparr>" "get_api_products w0"
        "request0\<lparr>query := [(''token'', JStr '''')]\<rparr>" s0]
  by (simp add: request0_def lookup_def candidate_def e0_def)

section \<open>The login\<close>

text \<open>
  C6, as the code has it. A password that is absent or falsy (the empty string among
  them) is answered 400; a truthy password that is the configured admin password, 200
  with the admin token; any other truthy password, and any when no admin password is
  configured, 401. The state is the one before in each case.
\<close>

theorem login_outcomes:
  "post_api_login e req s =
     (if \<not> truthy (lookup (body req) ''password'')
      then (json_status 400 [(''ok'', JBool False), (''error'', JStr ''Missing password'')], s)
      else if (case env_ADMIN_PASSWORD e of
                 None \<Rightarrow> False
               | Some p \<Rightarrow> lookup (body req) ''password'' = JStr p)
      then (json_status 200 [(''ok'', JBool True), (''token'', ADMIN_TOKEN e)], s)
      else (json_status 401 [(''ok'', JBool False), (''error'', JStr ''Wrong password'')], s))"
  by (cases "env_ADMIN_PASSWORD e"; cases "lookup (body req) ''password''")
     (simp_all add: post_api_login_def ADMIN_PASSWORD_def env_val_def strict_eq_def)

text \<open>
  C6 as it is worded fails: the body has the field \<^verbatim>\<open>password\<close>, its value differs from
  the admin password, and the answer is 400, not 401.
\<close>

theorem login_present_password_counterexample:
  "map_of (body (request0\<lparr>body := [(''password'', JStr '''')]\<rparr>)) ''password'' = Some (JStr '''')
   \<and> JStr '''' \<noteq> ADMIN_PASSWORD e0
   \<and> status (fst (post_api_login e0 (request0\<lparr>body := [(''password'', JStr '''')]\<rparr>) s0)) = 400
   \<and> status (fst (post_api_login e0 (request0\<lparr>body := [(''password'', JStr '''')]\<rparr>) s0)) \<noteq> 401"
  by (simp add: request0_def ADMIN_PASSWORD_def e0_def env_val_def post_api_login_def lookup_def
       json_status_def)

text \<open>
  C9. A login whose \<^verbatim>\<open>password\<close> is there and is the empty string is answered 400 with
  the error \<^verbatim>\<open>Missing password\<close>, whatever the admin password.
\<close>

theorem login_empty_password:
  assumes "lookup (body req) ''password'' = JStr []"
  shows "post_api_login e req s =
     (json_status 400 [(''ok'', JBool False), (''error'', JStr ''Missing password'')], s)"
  using assms by (simp add: post_api_login_def)

theorem login_empty_password_witness:
  "lookup (body (request0\<lparr>body := [(''password'', JStr '''')]\<rparr>)) ''password'' = JStr []
   \<and> post_api_login e0 (request0\<lparr>body := [(''password'', JStr '''')]\<rparr>) s0 =
     (json_status 400 [(''ok'', JBool False), (''error'', JStr ''Missing password'')], s0)"
  using login_empty_password [of "request0\<lparr>body := [(''password'', JStr '''')]\<rparr>" e0 s0]
  by (simp add: request0_def lookup_def)

section \<open>The list of products\<close>

lemma newest_first_sort: "newest_first (sort_key (\<lambda>d. - createdAt d) xs)"
  using sorted_sort_key [of "\<lambda>d. - createdAt d" xs]
  by (simp add: newest_first_def sorted_map)

text \<open>
  C7. When the database answers, \<^verbatim>\<open>GET /api/products\<close> is answered 200 with a list that
  holds exactly the documents of the collection, each as often as the collection has it,
  ordered by \<^verbatim>\<open>createdAt\<close> descending; the state is unchanged. For an empty collection
  the list is empty, with the same status.
\<close>

theorem list_newest_first:
  assumes "connected w"
  shows "\<exists>products.
           get_api_products w req s = (\<lparr>status = 200, payload = Docs products\<rparr>, s)
         \<and> mset products = mset (docs s)
         \<and> newest_first products
         \<and> (docs s = [] \<longrightarrow> products = [])"
  using assms
  by (simp add: get_api_products_def find_sort_createdAt_desc_def newest_first_sort)

theorem list_newest_first_witness:
  "connected w0
   \<and> get_api_products w0 request0 s0 = (\<lparr>status = 200, payload = Docs [p2, p3, p1]\<rparr>, s0)
   \<and> get_api_products w0 request0 \<lparr>docs = [], tmp = {}\<rparr>
       = (\<lparr>status = 200, payload = Docs []\<rparr>, \<lparr>docs = [], tmp = {}\<rparr>)"
  using list_newest_first [of w0 request0 s0]
  by (simp add: w0_def get_api_products_def find_sort_createdAt_desc_def s0_def p1_def p2_def p3_def)

section \<open>The upload\<close>

text \<open>
  C5 does not hold of the code. An authorised upload with a file attached, whose
  forwarding to the media host fails: the answer is 500 and the file that multer wrote
  is still under \<^verbatim>\<open>tmp/\<close>. The same request with a forwarding that succeeds leaves no
  file behind.
\<close>

theorem upload_failure_keeps_file:
  "post_api_upload e0 (w0\<lparr>cloudinary_upload := (\<lambda>p folder. Inl ''ETIMEDOUT'')\<rparr>)
     (request0\<lparr>headers := [(''x-admin-token'', ''tok'')], image := Some ''PNG''\<rparr>) s0
   = (json_status 500 [(''error'', JStr ''Upload failed'')], s0\<lparr>tmp := {''tmp/3f2a9c''}\<rparr>)
   \<and> post_api_upload e0 w0
     (request0\<lparr>headers := [(''x-admin-token'', ''tok'')], image := Some ''PNG''\<rparr>) s0
   = (json_status 200 [(''ok'', JBool True),
        (''url'', JStr ''https://res.cloudinary.com/demo/jubilate_products/a.png''),
        (''public_id'', JStr ''jubilate_products/a'')], s0)"
  by (simp add: post_api_upload_def checkAdmin_candidate candidate_def request0_def ADMIN_TOKEN_def
       e0_def env_val_def js_or_def upload_single_def post_api_upload_handler_def w0_def s0_def)

section \<open>Documents and casts\<close>

lemma get_set_path: "get_path p (set_path q v d) = (if p = q then v else get_path p d)"
  by (cases p; cases q) simp_all

lemma id_set_path: "id' (set_path q v d) = id' d"
  by (cases q) simp_all

lemma createdAt_set_path: "createdAt (set_path q v d) = createdAt d"
  by (cases q) simp_all

lemma id_assign: "id' (assign vs d) = id' d"
  by (induction vs arbitrary: d) (auto simp: id_set_path)

lemma createdAt_assign: "createdAt (assign vs d) = createdAt d"
  by (induction vs arbitrary: d) (auto simp: createdAt_set_path)

lemma key_inj: "key p = key q \<Longrightarrow> p = q"
  by (cases p; cases q) simp_all

lemma distinct_paths: "distinct paths"
  by (simp add: paths_def)

lemma set_paths: "p \<in> set paths"
  by (cases p) (simp_all add: paths_def)

lemma get_assign_cast_fields:
  "distinct ps \<Longrightarrow> cast_fields w obj ps = Some vs \<Longrightarrow>
   get_path p (assign vs d) =
     (if p \<in> set ps \<and> lookup obj (key p) \<noteq> JUndefined
      then the (cast w p (lookup obj (key p))) else get_path p d)"
proof (induction ps arbitrary: vs d)
  case Nil
  then show ?case by simp
next
  case (Cons q ps)
  show ?case
  proof (cases "lookup obj (key q) = JUndefined")
    case True
    with Cons show ?thesis by auto
  next
    case False
    with Cons.prems obtain v vs' where
      v: "cast w q (lookup obj (key q)) = Some v" and
      vs': "cast_fields w obj ps = Some vs'" and
      vs: "vs = (q, v) # vs'"
      by (auto split: option.splits)
    from Cons.prems have "distinct ps" and "q \<notin> set ps" by simp_all
    with Cons.IH [OF \<open>distinct ps\<close> vs', of "set_path q v d"] v vs False
    show ?thesis by (auto simp: get_set_path)
  qed
qed

lemma has_type_cast: "has_type (productSchema p) v \<Longrightarrow> cast w p v = Some v"
  by (cases "productSchema p"; cases v) (simp_all add: cast_def castString_def castNumber_def)

lemma typed_lookup:
  assumes "typed_fields obj" and "lookup obj (key p) \<noteq> JUndefined"
  shows "has_type (productSchema p) (lookup obj (key p))"
proof -
  from assms(2) obtain v where v: "map_of obj (key p) = Some v" "lookup obj (key p) = v"
    by (auto simp: lookup_def split: option.splits)
  then have "(key p, v) \<in> set obj" by (simp add: map_of_SomeD)
  with assms(1) obtain q where "key p = key q" "has_type (productSchema q) v"
    by (auto simp: typed_fields_def list_all_iff list_ex_iff)
  with v show ?thesis by (auto dest: key_inj)
qed

lemma typed_cast_fields: "typed_fields obj \<Longrightarrow> \<exists>vs. cast_fields w obj ps = Some vs"
  by (induction ps) (auto simp: has_type_cast typed_lookup)

lemma typed_assign:
  assumes "typed_fields obj"
  shows "\<exists>vs. cast_fields w obj paths = Some vs
    \<and> (\<forall>p d. get_path p (assign vs d) =
           (if lookup obj (key p) = JUndefined then get_path p d else lookup obj (key p)))"
proof -
  from typed_cast_fields [OF assms] obtain vs where vs: "cast_fields w obj paths = Some vs"
    by blast
  have "get_path p (assign vs d) =
           (if lookup obj (key p) = JUndefined then get_path p d else lookup obj (key p))" for p d
    using get_assign_cast_fields [OF distinct_paths vs, of p d] typed_lookup [OF assms, of p]
    by (auto simp: set_paths has_type_cast)
  with vs show ?thesis by blast
qed

lemma cast_fields_cong:
  "(\<And>p. lookup obj (key p) = lookup obj' (key p)) \<Longrightarrow> cast_fields w obj ps = cast_fields w obj' ps"
  by (induction ps) (auto split: option.splits)

lemma update_first_find:
  "find P xs = Some d \<Longrightarrow> update_first P f xs = update_first P (\<lambda>x. f d) xs"
  by (induction xs) auto

lemma find_update_first:
  "find P xs = Some d \<Longrightarrow> P (f d) \<Longrightarrow> find P (update_first P f xs) = Some (f d)"
  by (induction xs) auto

section \<open>Identifiers that match no document\<close>

lemma find_cast_id:
  "castObjectId w i = Some oid \<Longrightarrow>
   find (\<lambda>d. castObjectId w i = Some (id' d)) xs = find (\<lambda>d. id' d = oid) xs"
  by (induction xs) auto

text \<open>
  C2, as the code has it. Take a request whose identifier matches no document of the
  collection, the database answering. Get-one, an authorised delete, and an authorised
  update whose body holds product fields of the types of the schema then answer 404
  when the store client accepts the identifier and 500 when it refuses it as malformed;
  the state is unchanged in both cases.
\<close>

theorem unmatched_identifier:
  assumes "connected w"
    and "find (\<lambda>d. castObjectId w (params_id req) = Some (id' d)) (docs s) = None"
  shows "get_api_products_id w req s =
           (if castObjectId w (params_id req) = None then server_error else not_found, s)
       \<and> (candidate req = ADMIN_TOKEN e \<longrightarrow>
           delete_api_products_id e w req s =
             (if castObjectId w (params_id req) = None then server_error else not_found, s))
       \<and> (candidate req = ADMIN_TOKEN e \<and> typed_fields (body req) \<longrightarrow>
           put_api_products_id e w req s =
             (if castObjectId w (params_id req) = None then server_error else not_found, s))"
proof (cases "castObjectId w (params_id req)")
  case None
  then show ?thesis
    using assms
    by (simp add: put_api_products_id_def delete_api_products_id_def checkAdmin_candidate
          get_api_products_id_def put_api_products_id_handler_def
          delete_api_products_id_handler_def findById_def findByIdAndUpdate_def
          findByIdAndDelete_def server_error_def)
next
  case (Some oid)
  have unmatched: "find (\<lambda>d. id' d = oid) (docs s) = None"
    using find_cast_id [OF Some, of "docs s"] assms(2) by simp
  have get: "get_api_products_id w req s = (not_found, s)"
    using Some unmatched assms(1)
    by (simp add: get_api_products_id_def findById_def not_found_def)
  have delete: "delete_api_products_id e w req s = (not_found, s)"
    if "candidate req = ADMIN_TOKEN e"
    using that Some unmatched assms(1)
    by (simp add: delete_api_products_id_def checkAdmin_candidate
          delete_api_products_id_handler_def findByIdAndDelete_def not_found_def)
  have put: "put_api_products_id e w req s = (not_found, s)"
    if "candidate req = ADMIN_TOKEN e" and typed: "typed_fields (body req)"
  proof -
    from typed_cast_fields [OF typed, of w paths]
    obtain vs where "cast_fields w (body req) paths = Some vs" by blast
    with that Some unmatched assms(1) show ?thesis
      by (simp add: put_api_products_id_def checkAdmin_candidate
            put_api_products_id_handler_def findByIdAndUpdate_def not_found_def)
  qed
  from Some get delete put show ?thesis by simp
qed

theorem unmatched_identifier_witness:
  "connected w0
   \<and> find (\<lambda>d. castObjectId w0 (params_id (request0\<lparr>headers := [(''x-admin-token'', ''tok'')],
         params_id := ''65a1b2c3d4e5f60718293a4f'',
         body := [(''price'', JNum 15)]\<rparr>)) = Some (id' d)) (docs s0) = None
   \<and> candidate (request0\<lparr>headers := [(''x-admin-token'', ''tok'')],
         params_id := ''65a1b2c3d4e5f60718293a4f'',
         body := [(''price'', JNum 15)]\<rparr>) = ADMIN_TOKEN e0
   \<and> typed_fields (body (request0\<lparr>headers := [(''x-admin-token'', ''tok'')],
         params_id := ''65a1b2c3d4e5f60718293a4f'',
         body := [(''price'', JNum 15)]\<rparr>))
   \<and> get_api_products_id w0 (request0\<lparr>headers := [(''x-admin-token'', ''tok'')],
         params_id := ''65a1b2c3d4e5f60718293a4f'',
         body := [(''price'', JNum 15)]\<rparr>) s0 = (not_found, s0)
   \<and> put_api_products_id e0 w0 (request0\<lparr>headers := [(''x-admin-token'', ''tok'')],
         params_id := ''65a1b2c3d4e5f60718293a4f'',
         body := [(''price'', JNum 15)]\<rparr>) s0 = (not_found, s0)
   \<and> delete_api_products_id e0 w0 (request0\<lparr>headers := [(''x-admin-token'', ''tok'')],
         params_id := ''65a1b2c3d4e5f60718293a4f'',
         body := [(''price'', JNum 15)]\<rparr>) s0 = (not_found, s0)
   \<and> find (\<lambda>d. castObjectId w0 (params_id (request0\<lparr>headers := [(''x-admin-token'', ''tok'')],
         params_id := ''xyz''\<rparr>)) = Some (id' d)) (docs s0) = None
   \<and> delete_api_products_id e0 w0 (request0\<lparr>headers := [(''x-admin-token'', ''tok'')],
         params_id := ''xyz''\<rparr>) s0 = (server_error, s0)"
proof -
  let ?req = "request0\<lparr>headers := [(''x-admin-token'', ''tok'')],
         params_id := ''65a1b2c3d4e5f60718293a4f'',
         body := [(''price'', JNum 15)]\<rparr>"
  let ?req' = "request0\<lparr>headers := [(''x-admin-token'', ''tok'')], params_id := ''xyz''\<rparr>"
  have 1: "connected w0" by (simp add: w0_def)
  have 2: "candidate ?req = ADMIN_TOKEN e0" "candidate ?req' = ADMIN_TOKEN e0"
    by (simp_all add: candidate_def request0_def ADMIN_TOKEN_def e0_def env_val_def js_or_def)
  have 3: "typed_fields (body ?req)"
    by (simp add: typed_fields_def paths_def request0_def)
  have 4: "find (\<lambda>d. castObjectId w0 (params_id ?req) = Some (id' d)) (docs s0) = None"
    by (simp add: request0_def w0_def hexdigit_def s0_def p1_def p2_def p3_def)
  have 5: "castObjectId w0 (params_id ?req) \<noteq> None"
    by (simp add: request0_def w0_def hexdigit_def)
  have 6: "find (\<lambda>d. castObjectId w0 (params_id ?req') = Some (id' d)) (docs s0) = None"
    by (simp add: request0_def w0_def s0_def)
  have 7: "castObjectId w0 (params_id ?req') = None"
    by (simp add: request0_def w0_def)
  from unmatched_identifier [OF 1 4, of e0] 2 3 5
  have a: "get_api_products_id w0 ?req s0 = (not_found, s0)"
    "put_api_products_id e0 w0 ?req s0 = (not_found, s0)"
    "delete_api_products_id e0 w0 ?req s0 = (not_found, s0)"
    by auto
  from unmatched_identifier [OF 1 6, of e0] 2 7
  have b: "delete_api_products_id e0 w0 ?req' s0 = (server_error, s0)"
    by auto
  from 1 2 3 4 6 a b show ?thesis by blast
qed

text \<open>
  C2 as it is worded fails: the identifier \<^verbatim>\<open>abc\<close> matches no document and the store
  client refuses it; the answer is 500.
\<close>

theorem malformed_identifier_counterexample:
  "find (\<lambda>d. id' d = ''abc'') (docs s0) = None
   \<and> castObjectId w0 ''abc'' = None
   \<and> get_api_products_id w0 (request0\<lparr>params_id := ''abc''\<rparr>) s0 = (server_error, s0)
   \<and> status server_error = 500"
  by (simp add: s0_def p1_def p2_def p3_def w0_def get_api_products_id_def findById_def
        request0_def server_error_def json_status_def)

section \<open>The update\<close>

text \<open>
  C3, as the code has it. Take an authorised update whose body holds product fields of
  the types of the schema, with an identifier that the store client accepts, the
  database answering. If a document has the identifier, the answer is 200 with the
  document after the update: every path the body supplies has the supplied value, every
  other path, \<^verbatim>\<open>_id\<close> and \<^verbatim>\<open>createdAt\<close> are as before, no other document changes, and a
  get-one of the same identifier right after answers the same document. If no document
  has the identifier, the answer is 404 and the state is unchanged.
\<close>

theorem update_overwrites_supplied_fields:
  assumes "candidate req = ADMIN_TOKEN e"
    and "connected w"
    and "typed_fields (body req)"
    and "castObjectId w (params_id req) = Some oid"
  shows "case find (\<lambda>d. id' d = oid) (docs s) of
           None \<Rightarrow> put_api_products_id e w req s = (not_found, s)
         | Some d \<Rightarrow>
             (\<exists>d'. put_api_products_id e w req s =
                     (\<lparr>status = 200, payload = Doc d'\<rparr>,
                      s\<lparr>docs := update_first (\<lambda>x. id' x = oid) (\<lambda>x. d') (docs s)\<rparr>)
                 \<and> (\<forall>p. get_path p d' =
                       (if lookup (body req) (key p) = JUndefined then get_path p d
                        else lookup (body req) (key p)))
                 \<and> id' d' = id' d
                 \<and> createdAt d' = createdAt d
                 \<and> get_api_products_id w req
                      (s\<lparr>docs := update_first (\<lambda>x. id' x = oid) (\<lambda>x. d') (docs s)\<rparr>) =
                     (\<lparr>status = 200, payload = Doc d'\<rparr>,
                      s\<lparr>docs := update_first (\<lambda>x. id' x = oid) (\<lambda>x. d') (docs s)\<rparr>))"
proof (cases "find (\<lambda>d. id' d = oid) (docs s)")
  case None
  from typed_cast_fields [OF assms(3)] obtain vs where "cast_fields w (body req) paths = Some vs"
    by blast
  with None assms show ?thesis
    by (simp add: put_api_products_id_def checkAdmin_candidate put_api_products_id_handler_def
          findByIdAndUpdate_def not_found_def)
next
  case (Some d)
  from typed_assign [OF assms(3), of w]
  obtain vs where vs: "cast_fields w (body req) paths = Some vs"
    and get: "\<And>p x. get_path p (assign vs x) =
           (if lookup (body req) (key p) = JUndefined then get_path p x
            else lookup (body req) (key p))"
    by blast
  let ?d' = "assign vs d"
  let ?s' = "s\<lparr>docs := update_first (\<lambda>x. id' x = oid) (\<lambda>x. ?d') (docs s)\<rparr>"
  from Some have oid: "id' d = oid" by (auto simp: find_Some_iff)
  have put: "put_api_products_id e w req s = (\<lparr>status = 200, payload = Doc ?d'\<rparr>, ?s')"
    using Some vs assms update_first_find [OF Some, of "assign vs"]
    by (simp add: put_api_products_id_def checkAdmin_candidate put_api_products_id_handler_def
          findByIdAndUpdate_def)
  have "find (\<lambda>x. id' x = oid) (update_first (\<lambda>x. id' x = oid) (\<lambda>x. ?d') (docs s)) = Some ?d'"
    using find_update_first [OF Some, of "\<lambda>x. ?d'"] oid by (simp add: id_assign)
  then have get_after: "get_api_products_id w req ?s' = (\<lparr>status = 200, payload = Doc ?d'\<rparr>, ?s')"
    using assms by (simp add: get_api_products_id_def findById_def)
  from put get get_after Some show ?thesis
    by (simp add: id_assign createdAt_assign)
qed

theorem update_overwrites_supplied_fields_witness:
  "candidate (request0\<lparr>headers := [(''x-admin-token'', ''tok'')],
       params_id := ''65a1b2c3d4e5f60718293a4b'',
       body := [(''price'', JNum 15), (''brand'', JStr ''Glam'')]\<rparr>) = ADMIN_TOKEN e0
   \<and> connected w0
   \<and> typed_fields [(''price'', JNum 15), (''brand'', JStr ''Glam'')]
   \<and> castObjectId w0 ''65a1b2c3d4e5f60718293a4b'' = Some ''65a1b2c3d4e5f60718293a4b''
   \<and> find (\<lambda>d. id' d = ''65a1b2c3d4e5f60718293a4b'') (docs s0) = Some p2
   \<and> put_api_products_id e0 w0
       (request0\<lparr>headers := [(''x-admin-token'', ''tok'')],
          params_id := ''65a1b2c3d4e5f60718293a4b'',
          body := [(''price'', JNum 15), (''brand'', JStr ''Glam'')]\<rparr>) s0
      = (\<lparr>status = 200, payload = Doc (p2\<lparr>brand := JStr ''Glam'', price := JNum 15\<rparr>)\<rparr>,
         \<lparr>docs = [p1, p2\<lparr>brand := JStr ''Glam'', price := JNum 15\<rparr>, p3], tmp = {}\<rparr>)"
proof -
  let ?req = "request0\<lparr>headers := [(''x-admin-token'', ''tok'')],
       params_id := ''65a1b2c3d4e5f60718293a4b'',
       body := [(''price'', JNum 15), (''brand'', JStr ''Glam'')]\<rparr>"
  have 1: "candidate ?req = ADMIN_TOKEN e0"
    by (simp add: candidate_def request0_def ADMIN_TOKEN_def e0_def env_val_def js_or_def)
  have 2: "connected w0" by (simp add: w0_def)
  have 3: "typed_fields (body ?req)"
    by (simp add: typed_fields_def paths_def request0_def)
  have 4: "castObjectId w0 (params_id ?req) = Some ''65a1b2c3d4e5f60718293a4b''"
    by (simp add: request0_def w0_def hexdigit_def)
  have 5: "find (\<lambda>d. id' d = ''65a1b2c3d4e5f60718293a4b'') (docs s0) = Some p2"
    by (simp add: s0_def p1_def p2_def p3_def)
  from update_overwrites_supplied_fields [OF 1 2 3 4, of s0] 5
  obtain d' where put: "put_api_products_id e0 w0 ?req s0 =
       (\<lparr>status = 200, payload = Doc d'\<rparr>,
        s0\<lparr>docs := update_first (\<lambda>x. id' x = ''65a1b2c3d4e5f60718293a4b'') (\<lambda>x. d') (docs s0)\<rparr>)"
    and get: "\<And>p. get_path p d' =
       (if lookup (body ?req) (key p) = JUndefined then get_path p p2 else lookup (body ?req) (key p))"
    and i: "id' d' = id' p2" and c: "createdAt d' = createdAt p2"
    by auto
  have "d' = p2\<lparr>brand := JStr ''Glam'', price := JNum 15\<rparr>"
    using get [of Name] get [of Brand] get [of Size] get [of Description] get [of Price]
      get [of ImageUrl] i c
    by (cases d') (simp add: request0_def lookup_def p2_def)
  with put 1 2 3 4 5 show ?thesis
    by (simp add: request0_def s0_def p1_def p2_def p3_def)
qed

text \<open>
  C3 as it is worded fails twice. An authorised update of an existing document that
  supplies an array as the name is answered 500 and changes nothing; an authorised
  update with the identifier \<^verbatim>\<open>abc\<close>, which no document has, is answered 500, not 404.
\<close>

theorem update_rejected_counterexample:
  "find (\<lambda>d. id' d = ''65a1b2c3d4e5f60718293a4b'') (docs s0) = Some p2
   \<and> put_api_products_id e0 w0
       (request0\<lparr>headers := [(''x-admin-token'', ''tok'')],
          params_id := ''65a1b2c3d4e5f60718293a4b'',
          body := [(''name'', JArr [JStr ''Gloss''])]\<rparr>) s0 = (server_error, s0)
   \<and> find (\<lambda>d. id' d = ''abc'') (docs s0) = None
   \<and> put_api_products_id e0 w0
       (request0\<lparr>headers := [(''x-admin-token'', ''tok'')], params_id := ''abc'',
          body := [(''price'', JNum 15)]\<rparr>) s0 = (server_error, s0)
   \<and> status server_error = 500"
  by (simp add: s0_def p1_def p2_def p3_def put_api_products_id_def checkAdmin_candidate
        candidate_def request0_def ADMIN_TOKEN_def e0_def env_val_def js_or_def
        put_api_products_id_handler_def findByIdAndUpdate_def w0_def hexdigit_def paths_def
        lookup_def cast_def castString_def castNumber_def server_error_def json_status_def)

section \<open>The creation\<close>

lemma lookup_object_literal:
  "lookup [(''name'', lookup b ''name''), (''brand'', lookup b ''brand''),
           (''size'', lookup b ''size''), (''description'', lookup b ''description''),
           (''price'', lookup b ''price''), (''imageUrl'', lookup b ''imageUrl'')] (key p)
   = lookup b (key p)"
  by (cases p) (simp_all add: lookup_def)

lemma get_path_defaults:
  "get_path p (defaults d) = (if p = Price \<and> price d = JUndefined then JNum 0 else get_path p d)"
  by (cases p) (simp_all add: defaults_def)

lemma get_path_blank: "get_path p (blank w) = JUndefined"
  by (cases p) (simp_all add: blank_def)

lemma typed_truthy_required:
  "has_type SchemaString v \<Longrightarrow> truthy v \<Longrightarrow> required_ok v"
  by (cases v) (simp_all add: required_ok_def)

lemma truthy_defined: "truthy v \<Longrightarrow> v \<noteq> JUndefined"
  by auto

text \<open>
  C4, as the code has it, for an authorised request. When the name is absent or falsy
  (the empty string among them) the answer is 400 and the state is unchanged. When the
  name is truthy, the body holds product fields of the types of the schema, the database
  answers and the new identifier is not in the collection, the answer is 200 with the
  new document, which is appended to the collection: every path the body supplies has the
  supplied value, \<^verbatim>\<open>price\<close> is 0 when the body has none, every other path is not set,
  and \<^verbatim>\<open>createdAt\<close> is the current time.
\<close>

theorem create_product:
  assumes "candidate req = ADMIN_TOKEN e"
  shows "(\<not> truthy (lookup (body req) ''name'') \<longrightarrow>
            post_api_products e w req s =
              (json_status 400 [(''error'', JStr ''Name is required'')], s))
       \<and> (truthy (lookup (body req) ''name'') \<and> typed_fields (body req) \<and> connected w
            \<and> newObjectId w \<notin> set (map id' (docs s)) \<longrightarrow>
            (\<exists>d. post_api_products e w req s =
                    (\<lparr>status = 200, payload = Doc d\<rparr>, s\<lparr>docs := docs s @ [d]\<rparr>)
                \<and> id' d = newObjectId w
                \<and> createdAt d = now w
                \<and> (\<forall>p. get_path p d =
                      (if lookup (body req) (key p) \<noteq> JUndefined then lookup (body req) (key p)
                       else if p = Price then JNum 0 else JUndefined))))"
proof (intro conjI impI)
  assume "\<not> truthy (lookup (body req) ''name'')"
  with assms show "post_api_products e w req s =
      (json_status 400 [(''error'', JStr ''Name is required'')], s)"
    by (simp add: post_api_products_def checkAdmin_candidate post_api_products_handler_def)
next
  let ?b = "body req"
  let ?obj = "[(''name'', lookup ?b ''name''), (''brand'', lookup ?b ''brand''),
           (''size'', lookup ?b ''size''), (''description'', lookup ?b ''description''),
           (''price'', lookup ?b ''price''), (''imageUrl'', lookup ?b ''imageUrl'')]"
  assume a: "truthy (lookup ?b ''name'') \<and> typed_fields ?b \<and> connected w
            \<and> newObjectId w \<notin> set (map id' (docs s))"
  from typed_assign [of ?b w] a
  obtain vs where vs: "cast_fields w ?b paths = Some vs"
    and get: "\<And>p x. get_path p (assign vs x) =
           (if lookup ?b (key p) = JUndefined then get_path p x else lookup ?b (key p))"
    by blast
  have "cast_fields w ?obj paths = cast_fields w ?b paths"
    by (rule cast_fields_cong) (rule lookup_object_literal)
  with vs have new: "new_Product w ?obj = Inr (defaults (assign vs (blank w)))"
    by (simp add: new_Product_def)
  let ?d = "defaults (assign vs (blank w))"
  have fields: "get_path p ?d =
      (if lookup ?b (key p) \<noteq> JUndefined then lookup ?b (key p)
       else if p = Price then JNum 0 else JUndefined)" for p
    using get [of Price "blank w"] get [of p "blank w"]
    by (cases p) (auto simp: get_path_defaults get_path_blank)
  have i: "id' ?d = newObjectId w" and c: "createdAt ?d = now w"
    by (simp_all add: defaults_def id_assign createdAt_assign blank_def)
  from a have "lookup ?b (key Name) \<noteq> JUndefined" by (auto dest: truthy_defined)
  with typed_lookup [of ?b Name] a have "required_ok (lookup ?b ''name'')"
    by (auto intro: typed_truthy_required)
  with fields [of Name] a have "required_ok (name ?d)"
    by (auto dest: truthy_defined)
  with a i new have "save w (new_Product w ?obj) s = Inr (?d, s\<lparr>docs := docs s @ [?d]\<rparr>)"
    by (simp add: save_def)
  with a assms have "post_api_products e w req s =
      (\<lparr>status = 200, payload = Doc ?d\<rparr>, s\<lparr>docs := docs s @ [?d]\<rparr>)"
    by (simp add: post_api_products_def checkAdmin_candidate post_api_products_handler_def Let_def)
  with i c fields show "\<exists>d. post_api_products e w req s =
                    (\<lparr>status = 200, payload = Doc d\<rparr>, s\<lparr>docs := docs s @ [d]\<rparr>)
                \<and> id' d = newObjectId w
                \<and> createdAt d = now w
                \<and> (\<forall>p. get_path p d =
                      (if lookup (body req) (key p) \<noteq> JUndefined then lookup (body req) (key p)
                       else if p = Price then JNum 0 else JUndefined))"
    by blast
qed

theorem create_product_witness:
  "candidate (request0\<lparr>headers := [(''x-admin-token'', ''tok'')],
       body := [(''name'', JStr ''Gloss''), (''size'', JStr ''5ml'')]\<rparr>) = ADMIN_TOKEN e0
   \<and> truthy (lookup [(''name'', JStr ''Gloss''), (''size'', JStr ''5ml'')] ''name'')
   \<and> typed_fields [(''name'', JStr ''Gloss''), (''size'', JStr ''5ml'')]
   \<and> connected w0
   \<and> newObjectId w0 \<notin> set (map id' (docs s0))
   \<and> post_api_products e0 w0
       (request0\<lparr>headers := [(''x-admin-token'', ''tok'')],
          body := [(''name'', JStr ''Gloss''), (''size'', JStr ''5ml'')]\<rparr>) s0
      = (\<lparr>status = 200, payload = Doc p4\<rparr>, \<lparr>docs = [p1, p2, p3, p4], tmp = {}\<rparr>)
   \<and> \<not> truthy (lookup [(''name'', JStr ''''), (''size'', JStr ''5ml'')] ''name'')
   \<and> post_api_products e0 w0
       (request0\<lparr>headers := [(''x-admin-token'', ''tok'')],
          body := [(''name'', JStr ''''), (''size'', JStr ''5ml'')]\<rparr>) s0
      = (json_status 400 [(''error'', JStr ''Name is required'')], s0)"
proof -
  let ?req = "request0\<lparr>headers := [(''x-admin-token'', ''tok'')],
       body := [(''name'', JStr ''Gloss''), (''size'', JStr ''5ml'')]\<rparr>"
  let ?req' = "request0\<lparr>headers := [(''x-admin-token'', ''tok'')],
       body := [(''name'', JStr ''''), (''size'', JStr ''5ml'')]\<rparr>"
  have 1: "candidate ?req = ADMIN_TOKEN e0" "candidate ?req' = ADMIN_TOKEN e0"
    by (simp_all add: candidate_def request0_def ADMIN_TOKEN_def e0_def env_val_def js_or_def)
  have 2: "truthy (lookup (body ?req) ''name'')" "\<not> truthy (lookup (body ?req') ''name'')"
    by (simp_all add: request0_def lookup_def)
  have 3: "typed_fields (body ?req)"
    by (simp add: typed_fields_def paths_def request0_def)
  have 4: "connected w0" by (simp add: w0_def)
  have 5: "newObjectId w0 \<notin> set (map id' (docs s0))"
    by (simp add: w0_def s0_def p1_def p2_def p3_def)
  from create_product [OF 1(1), of w0 s0] 2 3 4 5
  obtain d where post: "post_api_products e0 w0 ?req s0 =
       (\<lparr>status = 200, payload = Doc d\<rparr>, s0\<lparr>docs := docs s0 @ [d]\<rparr>)"
    and i: "id' d = newObjectId w0" and c: "createdAt d = now w0"
    and get: "\<And>p. get_path p d =
       (if lookup (body ?req) (key p) \<noteq> JUndefined then lookup (body ?req) (key p)
        else if p = Price then JNum 0 else JUndefined)"
    by blast
  have "d = p4"
    using get [of Name] get [of Brand] get [of Size] get [of Description] get [of Price]
      get [of ImageUrl] i c
    by (cases d) (simp add: request0_def lookup_def p4_def w0_def)
  with post have 6: "post_api_products e0 w0 ?req s0 =
      (\<lparr>status = 200, payload = Doc p4\<rparr>, \<lparr>docs = [p1, p2, p3, p4], tmp = {}\<rparr>)"
    by (simp add: s0_def)
  from create_product [OF 1(2), of w0 s0] 2
  have 7: "post_api_products e0 w0 ?req' s0 =
      (json_status 400 [(''error'', JStr ''Name is required'')], s0)"
    by blast
  from 1 2 3 4 5 6 7 show ?thesis by (simp add: request0_def)
qed

text \<open>
  C4 as it is worded fails: an authorised creation with a name that is not empty and an
  array as the price is answered 500 and persists nothing, whatever the store client.
\<close>

theorem create_rejected_counterexample:
  "truthy (lookup [(''name'', JStr ''Gloss''), (''price'', JArr [JNum 5])] ''name'')
   \<and> (\<forall>w. post_api_products e0 w
       (request0\<lparr>headers := [(''x-admin-token'', ''tok'')],
          body := [(''name'', JStr ''Gloss''), (''price'', JArr [JNum 5])]\<rparr>) s0
      = (server_error, s0))
   \<and> status server_error = 500"
  by (simp add: post_api_products_def checkAdmin_candidate
        candidate_def request0_def ADMIN_TOKEN_def e0_def env_val_def js_or_def
        post_api_products_handler_def new_Product_def save_def paths_def
        lookup_def cast_def castString_def castNumber_def server_error_def json_status_def)

end
